theory Spec2Isabelle
  imports Main
begin

section \<open>Equipment hire console application\<close>

text \<open>
  A shallow embedding of the equipment hire programme \<^verbatim>\<open>hailmary.py\<close>, with the
  earnings reports of the drafts \<^verbatim>\<open>wip.py\<close> and \<^verbatim>\<open>wiptask3.py\<close> beside its
  own. Money is integer pence (Python's unbounded \<open>int\<close>, here \<open>int\<close>); Python's
  \<open>//\<close> and \<open>%\<close> are floor division and its remainder, which is what \<open>div\<close> and
  \<open>mod\<close> are on \<open>int\<close>.
\<close>

subsection \<open>Strings\<close>

text \<open>
  A Python \<open>str\<close> is a sequence of Unicode code points and \<open>len\<close> counts code points.
  The programme prints the pound sign (U+00A3) and joins the equipment summary with an
  en dash (U+2013), so a string is modelled as the list of its code points. \<open>lit\<close>
  embeds an ASCII literal.
\<close>

type_synonym pystr = "nat list"

definition lit :: "string \<Rightarrow> pystr" where
  "lit s = map of_char s"

subsection \<open>Catalogue\<close>

record catalog_entry =
  code :: pystr
  name :: pystr
  daily_p :: int

definition entry :: "string \<Rightarrow> string \<Rightarrow> int \<Rightarrow> catalog_entry" where
  "entry c n p = \<lparr>code = lit c, name = lit n, daily_p = p\<rparr>"

definition CATALOG :: "catalog_entry list" where
  "CATALOG =
    [entry ''DCH'' ''Day chairs'' 1500,
     entry ''BCH'' ''Bed chairs'' 2500,
     entry ''BAS'' ''Bite Alarm (set of 3)'' 2000,
     entry ''BA1'' ''Bite Alarm (single)'' 500,
     entry ''BBT'' ''Bait Boat'' 6000,
     entry ''TNT'' ''Camping tent'' 2000,
     entry ''SLP'' ''Sleeping bag'' 2000,
     entry ''R3T'' ''Rods (3lb TC)'' 1000,
     entry ''RBR'' ''Rods (Bait runners)'' 500,
     entry ''REB'' ''Reels (Bait runners)'' 1000,
     entry ''STV'' ''Camping Gas stove (Double burner)'' 1000]"

subsection \<open>Pricing rules\<close>

definition ADDITIONAL_NIGHT_MULTIPLIER_NUM :: int where
  "ADDITIONAL_NIGHT_MULTIPLIER_NUM = 1"

definition ADDITIONAL_NIGHT_MULTIPLIER_DEN :: int where
  "ADDITIONAL_NIGHT_MULTIPLIER_DEN = 2"

text \<open>
  \<^verbatim>\<open>calc_line_costs(daily_p, qty, nights, returned_on_time)\<close> returns the triple
  (first night, additional nights, late-return charge) in pence.
\<close>

definition calc_line_costs :: "int \<Rightarrow> int \<Rightarrow> int \<Rightarrow> bool \<Rightarrow> int \<times> int \<times> int" where
  "calc_line_costs daily qty nights returned_on_time =
    (let first_night_p = daily * qty;
         add_per_night = (daily * qty * ADDITIONAL_NIGHT_MULTIPLIER_NUM)
                           div ADDITIONAL_NIGHT_MULTIPLIER_DEN;
         additional_p = add_per_night * max 0 (nights - 1);
         extra_delay_p = (if returned_on_time then 0 else add_per_night)
     in (first_night_p, additional_p, extra_delay_p))"

subsection \<open>Formatting helpers\<close>

text \<open>
  \<open>str_int\<close> is Python's \<open>str\<close> of an \<open>int\<close> (also the \<open>d\<close> presentation of a format
  field): decimal digits, with a minus sign for a negative number.
\<close>

fun dec_nat :: "nat \<Rightarrow> pystr" where
  "dec_nat n = (if n < 10 then [48 + n] else dec_nat (n div 10) @ [48 + n mod 10])"

declare dec_nat.simps [simp del]

definition str_int :: "int \<Rightarrow> pystr" where
  "str_int i = (if i < 0 then 45 # dec_nat (nat (- i)) else dec_nat (nat i))"

text \<open>
  The format field \<open>{i:02d}\<close>: minimum width 2, filled with zeros after the sign.
\<close>

definition fmt_02d :: "int \<Rightarrow> pystr" where
  "fmt_02d i =
    (if i < 0 then 45 # dec_nat (nat (- i))
     else replicate (2 - length (dec_nat (nat i))) 48 @ dec_nat (nat i))"

text \<open>
  The format field \<open>{i:,}\<close>: decimal digits in groups of three separated by commas.
\<close>

fun group_nat :: "nat \<Rightarrow> pystr" where
  "group_nat n =
    (if n < 1000 then dec_nat n
     else group_nat (n div 1000)
          @ 44 # replicate (3 - length (dec_nat (n mod 1000))) 48 @ dec_nat (n mod 1000))"

declare group_nat.simps [simp del]

definition fmt_comma :: "int \<Rightarrow> pystr" where
  "fmt_comma i = (if i < 0 then 45 # group_nat (nat (- i)) else group_nat (nat i))"

text \<open>
  The format fields \<open>{x:<w}\<close> and \<open>{x:>w}\<close>: pad with spaces on the right, or on the
  left, up to the width \<open>w\<close>; a longer text is kept whole.
\<close>

definition ljust :: "nat \<Rightarrow> pystr \<Rightarrow> pystr" where
  "ljust w s = s @ replicate (w - length s) 32"

definition rjust :: "nat \<Rightarrow> pystr \<Rightarrow> pystr" where
  "rjust w s = replicate (w - length s) 32 @ s"

text \<open>\<open>sep.join(parts)\<close>.\<close>

fun join :: "pystr \<Rightarrow> pystr list \<Rightarrow> pystr" where
  "join sep [] = []"
| "join sep [x] = x"
| "join sep (x # y # ys) = x @ sep @ join sep (y # ys)"

text \<open>
  \<open>str.upper\<close>, on the ASCII letters: \<open>a\<close> to \<open>z\<close> become \<open>A\<close> to \<open>Z\<close> and every
  other code point is kept. Python also rewrites letters outside ASCII; the model
  leaves them as they are.
\<close>

definition upper_cp :: "nat \<Rightarrow> nat" where
  "upper_cp c = (if 97 \<le> c \<and> c \<le> 122 then c - 32 else c)"

definition upper :: "pystr \<Rightarrow> pystr" where
  "upper s = map upper_cp s"

subsection \<open>Utilities\<close>

text \<open>
  \<^verbatim>\<open>money\<close> of \<^verbatim>\<open>hailmary.py\<close>: the pound sign, \<^verbatim>\<open>{pounds}\<close>, a full stop and
  \<^verbatim>\<open>{pennies:02d}\<close>.
\<close>

definition money :: "int \<Rightarrow> pystr" where
  "money pence =
    (let pounds = pence div 100; pennies = pence mod 100
     in 163 # str_int pounds @ 46 # fmt_02d pennies)"

text \<open>
  \<^verbatim>\<open>money\<close> of \<^verbatim>\<open>wip.py\<close>: the pound sign, \<^verbatim>\<open>{pounds:,}\<close>, a full stop and
  \<^verbatim>\<open>{pennies:02d}\<close>.
\<close>

definition money_wip :: "int \<Rightarrow> pystr" where
  "money_wip pence =
    (let pounds = pence div 100; pennies = pence mod 100
     in 163 # fmt_comma pounds @ 46 # fmt_02d pennies)"

text \<open>
  \<^verbatim>\<open>find_item\<close>: the first catalogue entry whose code is the upper-cased argument,
  or \<open>None\<close>.
\<close>

definition find_item :: "pystr \<Rightarrow> catalog_entry option" where
  "find_item c = List.find (\<lambda>it. code it = upper c) CATALOG"

subsection \<open>Line items, hire records and the session state\<close>

record line_item =
  line_code :: pystr
  line_name :: pystr
  qty :: int
  line_daily_p :: int
  first_night_p :: int
  additional_nights_p :: int
  extra_delay_p :: int
  line_total_p :: int

text \<open>
  A hire record. \<^verbatim>\<open>hailmary.py\<close> stores the on-time flag as a \<open>bool\<close>, the drafts
  \<^verbatim>\<open>wip.py\<close> and \<^verbatim>\<open>wiptask3.py\<close> store the text \<open>y\<close> or \<open>n\<close>; the type of that
  field is the parameter \<open>'f\<close>.
\<close>

record 'f hire =
  customer_id :: int
  customer_name :: pystr
  nights :: int
  returned_on_time :: 'f
  lines :: "line_item list"
  hire_extra_delay_p :: int
  total_p :: int
  items_summary :: pystr

record 'f app_state =
  hire_records :: "'f hire list"
  next_customer_id :: int

definition AppState :: "'f app_state" where
  "AppState = \<lparr>hire_records = [], next_customer_id = 101\<rparr>"

subsection \<open>Building the lines of a hire\<close>

text \<open>
  The interactive readers are modelled by what they accept. An item entry is the pair
  of the code as typed and the quantity as an integer (the text left of the comma and
  the \<open>int\<close> of the text right of it). \<^verbatim>\<open>_parse_item_line\<close> upper-cases the code,
  and raises \<open>ValueError\<close> (here \<open>None\<close>) for an unknown code or a quantity below 1.
\<close>

definition parse_item_line :: "pystr \<times> int \<Rightarrow> (pystr \<times> int) option" where
  "parse_item_line e =
    (let c = upper (fst e); q = snd e
     in if find_item c = None then None
        else if q < 1 then None
        else Some (c, q))"

text \<open>
  The body of the loop of \<^verbatim>\<open>read_item_lines\<close> after a successful parse: look the item
  up again, price it, and build the line. Subscripting \<open>None\<close> would raise; that is the
  result \<open>None\<close>.
\<close>

definition item_line :: "pystr \<Rightarrow> int \<Rightarrow> int \<Rightarrow> bool \<Rightarrow> line_item option" where
  "item_line c q n on_time =
    (case find_item c of
       None \<Rightarrow> None
     | Some item \<Rightarrow>
         (let daily = daily_p item;
              (first_p, add_p, delay_p) = calc_line_costs daily q n on_time
          in Some \<lparr>line_code = c, line_name = name item, qty = q, line_daily_p = daily,
                   first_night_p = first_p, additional_nights_p = add_p,
                   extra_delay_p = delay_p,
                   line_total_p = first_p + add_p + delay_p\<rparr>))"

text \<open>
  \<^verbatim>\<open>read_item_lines\<close> over the entries typed before the closing blank line. A rejected
  entry prints its message and is skipped. A blank line with no line accepted so far
  prompts again; with the input exhausted the function never returns (\<open>None\<close>).
\<close>

fun read_item_lines_loop ::
  "int \<Rightarrow> bool \<Rightarrow> (pystr \<times> int) list \<Rightarrow> line_item list \<Rightarrow> line_item list option" where
  "read_item_lines_loop n on_time [] lns = (if lns = [] then None else Some lns)"
| "read_item_lines_loop n on_time (e # es) lns =
    (case parse_item_line e of
       None \<Rightarrow> read_item_lines_loop n on_time es lns
     | Some (c, q) \<Rightarrow>
         (case item_line c q n on_time of
            None \<Rightarrow> None
          | Some ln \<Rightarrow> read_item_lines_loop n on_time es (lns @ [ln])))"

definition read_item_lines :: "int \<Rightarrow> bool \<Rightarrow> (pystr \<times> int) list \<Rightarrow> line_item list option" where
  "read_item_lines n on_time es = read_item_lines_loop n on_time es []"

subsection \<open>The hire flow\<close>

text \<open>
  One pass of the loop of \<^verbatim>\<open>run_hire_flow\<close> from the computed lines on: summary and
  totals, the record with the next customer id, the append to the ledger and the
  increment of the counter.
\<close>

definition summary_of :: "line_item list \<Rightarrow> pystr" where
  "summary_of lns =
    join (lit '', '') (map (\<lambda>ln. line_name ln @ [32, 8211, 32] @ str_int (qty ln)) lns)"

definition save_hire ::
  "bool app_state \<Rightarrow> pystr \<Rightarrow> int \<Rightarrow> bool \<Rightarrow> line_item list \<Rightarrow> bool app_state" where
  "save_hire st cname n on_time lns =
    (let summary = summary_of lns;
         delay_sum = sum_list (map extra_delay_p lns);
         total_sum = sum_list (map line_total_p lns);
         h = \<lparr>customer_id = next_customer_id st, customer_name = cname, nights = n,
              returned_on_time = on_time, lines = lns, hire_extra_delay_p = delay_sum,
              total_p = total_sum, items_summary = summary\<rparr>
     in \<lparr>hire_records = hire_records st @ [h],
         next_customer_id = next_customer_id st + 1\<rparr>)"

text \<open>
  \<^verbatim>\<open>run_hire_flow\<close> over the hires entered in one visit to the menu option: for each,
  the customer name of the accepted header, the accepted number of nights, the on-time
  answer and the item entries. The list ends where the user cancels or declines to add
  another hire. The confirmation printed after each save reads the new record and
  changes nothing; it is left out.
\<close>

type_synonym hire_entry = "pystr \<times> int \<times> bool \<times> (pystr \<times> int) list"

fun run_hire_flow :: "bool app_state \<Rightarrow> hire_entry list \<Rightarrow> bool app_state option" where
  "run_hire_flow st [] = Some st"
| "run_hire_flow st ((cname, n, on_time, items) # rest) =
    (case read_item_lines n on_time items of
       None \<Rightarrow> None
     | Some lns \<Rightarrow> run_hire_flow (save_hire st cname n on_time lns) rest)"

subsection \<open>The earnings report\<close>

text \<open>
  A report is the list of the texts printed, one per call of \<open>print\<close> (each is followed
  by a newline on the terminal).
\<close>

definition NO_HIRES :: pystr where
  "NO_HIRES = 10 # lit ''No hires recorded yet.''"

definition REPORT_HEADER :: pystr where
  "REPORT_HEADER = lit ''Customer ID | Equipment                                                       | Number of nights | Total Cost | Returned on time (y/n) | Extra charge for delayed return''"

definition REPORT_RULE :: pystr where
  "REPORT_RULE = lit ''------------+-----------------------------------------------------------------+------------------+------------+------------------------+--------------------------------''"

definition bar :: pystr where
  "bar = lit '' | ''"

text \<open>One table row of \<^verbatim>\<open>hailmary.py\<close>: the amounts are whole pounds.\<close>

definition report_row :: "bool hire \<Rightarrow> pystr" where
  "report_row h =
    (let cust_id = customer_id h;
         equipment_str = items_summary h;
         total_pounds = total_p h div 100;
         extra_pounds = hire_extra_delay_p h div 100;
         on_time_char = (if returned_on_time h then lit ''y'' else lit ''n'')
     in ljust 11 (str_int cust_id) @ bar @ ljust 65 equipment_str @ bar
        @ ljust 16 (str_int (nights h)) @ bar @ ljust 10 (str_int total_pounds) @ bar
        @ ljust 22 on_time_char @ bar @ ljust 30 (str_int extra_pounds))"

definition run_earnings_report :: "bool app_state \<Rightarrow> pystr list" where
  "run_earnings_report st =
    (if hire_records st = [] then [NO_HIRES]
     else [REPORT_HEADER, REPORT_RULE] @ map report_row (hire_records st))"

text \<open>The report of \<^verbatim>\<open>wip.py\<close>: a table with a footer of the total earnings.\<close>

definition dashes :: pystr where
  "dashes = replicate 118 45"

definition wip_header :: pystr where
  "wip_header =
    ljust 4 (lit ''ID'') @ bar @ ljust 20 (lit ''Customer Name'') @ bar
    @ ljust 45 (lit ''Equipment (Name '' @ 8211 # lit '' Qty)'') @ bar
    @ rjust 6 (lit ''Nights'') @ bar @ rjust 7 (lit ''On-Time'') @ bar
    @ rjust 10 (lit ''Late Fee'') @ bar @ rjust 12 (lit ''Total Cost'')"

definition wip_row :: "pystr hire \<Rightarrow> pystr" where
  "wip_row r =
    (let summary = (if length (items_summary r) > 45
                    then take 42 (items_summary r) @ lit ''...''
                    else items_summary r)
     in ljust 4 (str_int (customer_id r)) @ bar @ ljust 20 (customer_name r) @ bar
        @ ljust 45 summary @ bar @ rjust 6 (str_int (nights r)) @ bar
        @ rjust 7 (returned_on_time r) @ bar
        @ rjust 10 (money_wip (hire_extra_delay_p r)) @ bar
        @ rjust 12 (money_wip (total_p r)))"

text \<open>The loop prints one row per record and adds its total to \<open>grand_total\<close>.\<close>

fun wip_rows :: "pystr hire list \<Rightarrow> pystr list \<times> int \<Rightarrow> pystr list \<times> int" where
  "wip_rows [] acc = acc"
| "wip_rows (r # rs) (out, grand_total) =
    wip_rows rs (out @ [wip_row r], grand_total + total_p r)"

definition wip_total_line :: "int \<Rightarrow> pystr" where
  "wip_total_line grand_total =
    rjust 100 (lit ''TOTAL EARNINGS'') @ lit '' : '' @ rjust 15 (money_wip grand_total)"

definition run_earnings_report_wip :: "pystr app_state \<Rightarrow> pystr list" where
  "run_earnings_report_wip st =
    (if hire_records st = [] then [NO_HIRES]
     else
       (let (out, grand_total) =
              wip_rows (hire_records st)
                ([10 # dashes, lit ''Earnings Report'', dashes, wip_header, dashes], 0)
        in out @ [dashes, wip_total_line grand_total]))"

text \<open>The report of \<^verbatim>\<open>wiptask3.py\<close>: a block of lines per record, then the totals.\<close>

fun task3_rows ::
  "pystr hire list \<Rightarrow> pystr list \<times> int \<times> int \<Rightarrow> pystr list \<times> int \<times> int" where
  "task3_rows [] acc = acc"
| "task3_rows (h # hs) (out, grand_total, grand_delay) =
    task3_rows hs
      (out @ [lit ''Customer '' @ str_int (customer_id h) @ [32, 8211, 32] @ customer_name h,
              lit ''  Items:  '' @ items_summary h,
              lit ''  Total:  '' @ money (total_p h),
              lit ''  Delay:  '' @ money (hire_extra_delay_p h),
              []],
       grand_total + total_p h, grand_delay + hire_extra_delay_p h)"

definition run_earnings_report_task3 :: "pystr app_state \<Rightarrow> pystr list" where
  "run_earnings_report_task3 st =
    (if hire_records st = [] then [NO_HIRES]
     else
       (let (out, grand_total, grand_delay) =
              task3_rows (hire_records st) ([10 # lit ''=== Earnings Report ===''], 0, 0)
        in out @ [lit ''--- Totals ---'',
                  lit ''Grand total earnings: '' @ money grand_total,
                  lit ''Of which late-return charges: '' @ money grand_delay]))"

subsection \<open>Example ledgers\<close>

text \<open>
  The ledger after one hire of a day chair for one night, returned late, as
  \<^verbatim>\<open>hailmary.py\<close> stores it and as \<^verbatim>\<open>wip.py\<close> stores it.
\<close>

definition demo_ledger :: "bool app_state" where
  "demo_ledger =
     save_hire AppState (lit ''Jane Smith'') 1 False
       [\<lparr>line_code = lit ''DCH'', line_name = lit ''Day chairs'', qty = 1,
         line_daily_p = 1500, first_night_p = 1500, additional_nights_p = 0,
         extra_delay_p = 750, line_total_p = 2250\<rparr>]"

definition demo_ledger_wip :: "pystr app_state" where
  "demo_ledger_wip =
     \<lparr>hire_records =
        [\<lparr>customer_id = 101, customer_name = lit ''Jane Smith'', nights = 1,
          returned_on_time = lit ''n'',
          lines = [\<lparr>line_code = lit ''DCH'', line_name = lit ''Day chairs'', qty = 1,
                    line_daily_p = 1500, first_night_p = 1500, additional_nights_p = 0,
                    extra_delay_p = 750, line_total_p = 2250\<rparr>],
          hire_extra_delay_p = 750, total_p = 2250,
          items_summary = lit ''Day chairs '' @ 8211 # lit '' 1''\<rparr>],
      next_customer_id = 102\<rparr>"

section \<open>Properties of the pricing engine\<close>

text \<open>
  C1. For every daily price at least 0, quantity at least 1 and nights at least 1, and
  for either value of the on-time flag, the first-night cost is \<open>d * q\<close> and the
  additional-nights cost is the floor of \<open>d * q / 2\<close> times \<open>nights - 1\<close>.
  Floor division is \<open>div\<close>: nothing is rounded to nearest.
\<close>

theorem calc_line_costs_first_and_additional:
  assumes "0 \<le> d" and "1 \<le> q" and "1 \<le> n"
  shows "fst (calc_line_costs d q n t) = d * q
       \<and> fst (snd (calc_line_costs d q n t))
           = ((d * q) div 2) * (n - 1)"
  using assms
  by (simp add: calc_line_costs_def ADDITIONAL_NIGHT_MULTIPLIER_NUM_def
      ADDITIONAL_NIGHT_MULTIPLIER_DEN_def Let_def max_def)

theorem calc_line_costs_first_and_additional_witness:
  "(0::int) \<le> 1500 \<and> (1::int) \<le> 3 \<and> (1::int) \<le> 4
   \<and> fst (calc_line_costs 1500 3 4 False) = 4500
   \<and> fst (snd (calc_line_costs 1500 3 4 False)) = 6750
   \<and> fst (snd (calc_line_costs 5 3 4 True)) = 21"
  using calc_line_costs_first_and_additional [of 1500 3 4 False]
    calc_line_costs_first_and_additional [of 5 3 4 True]
  by simp

text \<open>
  C2. For every daily price at least 0, quantity at least 1 and nights at least 1, the
  late-return surcharge is the floor of \<open>d * q / 2\<close> (one half-night charge) when
  the equipment was not returned on time, and 0 when it was, whatever the number of
  nights.
\<close>

theorem calc_line_costs_late_surcharge:
  assumes "0 \<le> d" and "1 \<le> q" and "1 \<le> n"
  shows "snd (snd (calc_line_costs d q n False)) = (d * q) div 2
       \<and> snd (snd (calc_line_costs d q n True)) = 0"
  by (simp add: calc_line_costs_def ADDITIONAL_NIGHT_MULTIPLIER_NUM_def
      ADDITIONAL_NIGHT_MULTIPLIER_DEN_def Let_def)

theorem calc_line_costs_late_surcharge_witness:
  "(0::int) \<le> 1500 \<and> (1::int) \<le> 1 \<and> (1::int) \<le> 1
   \<and> calc_line_costs 1500 1 1 False = (1500, 0, 750)
   \<and> snd (snd (calc_line_costs 1500 1 1 True)) = 0"
  using calc_line_costs_late_surcharge [of 1500 1 1]
  by (simp add: calc_line_costs_def ADDITIONAL_NIGHT_MULTIPLIER_NUM_def
      ADDITIONAL_NIGHT_MULTIPLIER_DEN_def Let_def)

text \<open>
  C9. For every daily price, quantity and number of nights, the first-night cost and the
  additional-nights cost are the same with the on-time flag true and false: the flag
  only reaches the late-return surcharge.
\<close>

theorem calc_line_costs_flag_only_surcharge:
  "fst (calc_line_costs d q n True) = fst (calc_line_costs d q n False)
   \<and> fst (snd (calc_line_costs d q n True))
       = fst (snd (calc_line_costs d q n False))"
  by (simp add: calc_line_costs_def Let_def)

section \<open>Properties of the catalogue\<close>

lemma upper_cp_idem: "upper_cp (upper_cp c) = upper_cp c"
  unfolding upper_cp_def by auto

lemma upper_idem: "upper (upper s) = upper s"
  by (simp add: upper_def upper_cp_idem)







section \<open>Properties of line items\<close>

lemma item_line_Some:
  assumes "find_item c = Some item"
  shows "item_line c q n t =
    Some \<lparr>line_code = c, line_name = name item, qty = q, line_daily_p = daily_p item,
          first_night_p = fst (calc_line_costs (daily_p item) q n t),
          additional_nights_p = fst (snd (calc_line_costs (daily_p item) q n t)),
          extra_delay_p = snd (snd (calc_line_costs (daily_p item) q n t)),
          line_total_p = fst (calc_line_costs (daily_p item) q n t)
            + fst (snd (calc_line_costs (daily_p item) q n t))
            + snd (snd (calc_line_costs (daily_p item) q n t))\<rparr>"
  using assms by (simp add: item_line_def Let_def split_beta)

text \<open>
  C5. For every line item built from a known catalogue code, a quantity at least 1, a
  number of nights at least 1 and an on-time flag, the line is built (no error) and its
  line total is the first-night cost plus the additional-nights cost plus the
  late-return surcharge, the three being the results of the pricing engine.
\<close>

theorem item_line_total:
  assumes "find_item c = Some item" and "1 \<le> q" and "1 \<le> n"
  shows "\<exists>ln. item_line c q n t = Some ln
     \<and> line_total_p ln = first_night_p ln + additional_nights_p ln + extra_delay_p ln
     \<and> (first_night_p ln, additional_nights_p ln, extra_delay_p ln)
         = calc_line_costs (daily_p item) q n t"
  by (simp add: item_line_Some [OF assms(1)])

theorem item_line_total_witness:
  "find_item (lit ''BCH'') = Some (entry ''BCH'' ''Bed chairs'' 2500)
   \<and> (\<exists>ln. item_line (lit ''BCH'') 1 2 True = Some ln \<and> line_total_p ln = 3750
        \<and> line_total_p ln = first_night_p ln + additional_nights_p ln + extra_delay_p ln)"
proof -
  have f: "find_item (lit ''BCH'') = Some (entry ''BCH'' ''Bed chairs'' 2500)"
    by (simp add: find_item_def CATALOG_def entry_def lit_def upper_def upper_cp_def)
  have c: "calc_line_costs (daily_p (entry ''BCH'' ''Bed chairs'' 2500)) 1 2 True = (2500, 1250, 0)"
    by (simp add: calc_line_costs_def entry_def ADDITIONAL_NIGHT_MULTIPLIER_NUM_def
        ADDITIONAL_NIGHT_MULTIPLIER_DEN_def Let_def)
  from item_line_total [OF f, of 1 2 True]
  obtain ln where "item_line (lit ''BCH'') 1 2 True = Some ln"
    and "line_total_p ln = first_night_p ln + additional_nights_p ln + extra_delay_p ln"
    and "(first_night_p ln, additional_nights_p ln, extra_delay_p ln)
         = calc_line_costs (daily_p (entry ''BCH'' ''Bed chairs'' 2500)) 1 2 True"
    by auto
  with c f show ?thesis by auto
qed

section \<open>Properties of the hire flow\<close>

lemma parse_item_line_Some:
  "parse_item_line e = Some (c, q) \<Longrightarrow> find_item c \<noteq> None \<and> 1 \<le> q \<and> c = upper (fst e)"
  by (auto simp: parse_item_line_def Let_def split: if_splits)

lemma loop_acc_nonempty:
  "lns \<noteq> [] \<Longrightarrow> \<exists>r. read_item_lines_loop n t es lns = Some r"
proof (induction es arbitrary: lns)
  case Nil
  then show ?case by simp
next
  case (Cons e es)
  show ?case
  proof (cases "parse_item_line e")
    case None
    with Cons show ?thesis by simp
  next
    case (Some p)
    obtain c q where p: "p = (c, q)" by (cases p)
    from Some p parse_item_line_Some obtain item where "find_item c = Some item" by blast
    then obtain ln where "item_line c q n t = Some ln" using item_line_Some by blast
    with Some p Cons.IH [of "lns @ [ln]"] show ?thesis by simp
  qed
qed

lemma loop_accepts:
  "\<exists>x \<in> set es. parse_item_line x \<noteq> None \<Longrightarrow> \<exists>r. read_item_lines_loop n t es lns = Some r"
proof (induction es arbitrary: lns)
  case Nil
  then show ?case by simp
next
  case (Cons e es)
  show ?case
  proof (cases "parse_item_line e")
    case None
    with Cons show ?thesis by simp
  next
    case (Some p)
    obtain c q where p: "p = (c, q)" by (cases p)
    from Some p parse_item_line_Some obtain item where "find_item c = Some item" by blast
    then obtain ln where ln: "item_line c q n t = Some ln" using item_line_Some by blast
    have "\<exists>r. read_item_lines_loop n t es (lns @ [ln]) = Some r"
      by (rule loop_acc_nonempty) simp
    with Some p ln show ?thesis by simp
  qed
qed

lemma read_item_lines_accepts:
  "\<exists>x \<in> set es. parse_item_line x \<noteq> None \<Longrightarrow> \<exists>r. read_item_lines n t es = Some r"
  unfolding read_item_lines_def by (rule loop_accepts)

lemma save_hire_records:
  "hire_records (save_hire st cname n t lns) =
     hire_records st @
     [\<lparr>customer_id = next_customer_id st, customer_name = cname, nights = n,
       returned_on_time = t, lines = lns,
       hire_extra_delay_p = sum_list (map extra_delay_p lns),
       total_p = sum_list (map line_total_p lns),
       items_summary = summary_of lns\<rparr>]"
  by (simp add: save_hire_def Let_def)

lemma save_hire_next:
  "next_customer_id (save_hire st cname n t lns) = next_customer_id st + 1"
  by (simp add: save_hire_def Let_def)

lemma flow_totals:
  "run_hire_flow st es = Some st' \<Longrightarrow>
   \<forall>h \<in> set (hire_records st).
      total_p h = sum_list (map line_total_p (lines h))
      \<and> hire_extra_delay_p h = sum_list (map extra_delay_p (lines h)) \<Longrightarrow>
   \<forall>h \<in> set (hire_records st').
      total_p h = sum_list (map line_total_p (lines h))
      \<and> hire_extra_delay_p h = sum_list (map extra_delay_p (lines h))"
proof (induction st es rule: run_hire_flow.induct)
  case (1 st)
  then show ?case by simp
next
  case (2 st cname n on_time items rest)
  from "2.prems"(1) obtain lns where r: "read_item_lines n on_time items = Some lns"
    and f: "run_hire_flow (save_hire st cname n on_time lns) rest = Some st'"
    by (auto split: option.splits)
  have "\<forall>h \<in> set (hire_records (save_hire st cname n on_time lns)).
      total_p h = sum_list (map line_total_p (lines h))
      \<and> hire_extra_delay_p h = sum_list (map extra_delay_p (lines h))"
    using "2.prems"(2) by (simp add: save_hire_records)
  with "2.IH" [OF r f] show ?case by simp
qed

lemma flow_ids:
  "run_hire_flow st es = Some st' \<Longrightarrow>
     hire_records st' = hire_records st @ drop (length (hire_records st)) (hire_records st')
   \<and> map customer_id (drop (length (hire_records st)) (hire_records st'))
       = map (\<lambda>i. next_customer_id st + int i) [0..<length es]
   \<and> next_customer_id st' = next_customer_id st + int (length es)"
proof (induction st es rule: run_hire_flow.induct)
  case (1 st)
  then show ?case by simp
next
  case (2 st cname n on_time items rest)
  from "2.prems"(1) obtain lns where r: "read_item_lines n on_time items = Some lns"
    and f: "run_hire_flow (save_hire st cname n on_time lns) rest = Some st'"
    by (auto split: option.splits)
  let ?s = "save_hire st cname n on_time lns"
  let ?k = "length (hire_records st)"
  from "2.IH" [OF r f]
  have a: "hire_records st' = hire_records ?s @ drop (length (hire_records ?s)) (hire_records st')"
    and b: "map customer_id (drop (length (hire_records ?s)) (hire_records st'))
             = map (\<lambda>i. next_customer_id ?s + int i) [0..<length rest]"
    and c: "next_customer_id st' = next_customer_id ?s + int (length rest)"
    by simp_all
  obtain h where h: "hire_records ?s = hire_records st @ [h]" "customer_id h = next_customer_id st"
    by (simp add: save_hire_records)
  let ?tl = "drop (length (hire_records ?s)) (hire_records st')"
  from a h have st': "hire_records st' = hire_records st @ h # ?tl" by simp
  then have d: "drop ?k (hire_records st') = h # ?tl"
    by (metis append_eq_conv_conj)
  have e: "map (\<lambda>i. next_customer_id st + int i) [0..<length ((cname, n, on_time, items) # rest)]
           = next_customer_id st # map (\<lambda>i. next_customer_id ?s + int i) [0..<length rest]"
    by (simp add: save_hire_next upt_rec [of 0] map_Suc_upt [symmetric] del: upt_Suc)
  show ?case using st' d b c e h(2) by (simp add: save_hire_next)
qed

lemma flow_total:
  "\<forall>e \<in> set es. \<exists>x \<in> set (snd (snd (snd e))). parse_item_line x \<noteq> None
   \<Longrightarrow> \<exists>st'. run_hire_flow st es = Some st'"
proof (induction st es rule: run_hire_flow.induct)
  case (1 st)
  then show ?case by simp
next
  case (2 st cname n on_time items rest)
  from "2.prems" have "\<exists>x \<in> set items. parse_item_line x \<noteq> None" by simp
  then obtain lns where r: "read_item_lines n on_time items = Some lns"
    using read_item_lines_accepts by blast
  from "2.prems" have "\<forall>e \<in> set rest. \<exists>x \<in> set (snd (snd (snd e))). parse_item_line x \<noteq> None"
    by simp
  from "2.IH" [OF r this] r show ?case by simp
qed

text \<open>Some concrete entries, evaluated.\<close>

lemma demo_parse:
  "parse_item_line (lit ''r3t'', 3) = Some (lit ''R3T'', 3)
   \<and> parse_item_line (lit ''RBR'', 2) = Some (lit ''RBR'', 2)
   \<and> parse_item_line (lit ''dch'', 1) = Some (lit ''DCH'', 1)
   \<and> parse_item_line (lit ''zzz'', 1) = None
   \<and> parse_item_line (lit ''dch'', 0) = None"
  by (simp add: parse_item_line_def find_item_def CATALOG_def entry_def lit_def upper_def
      upper_cp_def Let_def)

lemma demo_lines:
  "item_line (lit ''R3T'') 3 2 False =
     Some \<lparr>line_code = lit ''R3T'', line_name = lit ''Rods (3lb TC)'', qty = 3,
           line_daily_p = 1000, first_night_p = 3000, additional_nights_p = 1500,
           extra_delay_p = 1500, line_total_p = 6000\<rparr>
   \<and> item_line (lit ''RBR'') 2 2 False =
     Some \<lparr>line_code = lit ''RBR'', line_name = lit ''Rods (Bait runners)'', qty = 2,
           line_daily_p = 500, first_night_p = 1000, additional_nights_p = 500,
           extra_delay_p = 500, line_total_p = 2000\<rparr>
   \<and> item_line (lit ''DCH'') 1 1 False =
     Some \<lparr>line_code = lit ''DCH'', line_name = lit ''Day chairs'', qty = 1,
           line_daily_p = 1500, first_night_p = 1500, additional_nights_p = 0,
           extra_delay_p = 750, line_total_p = 2250\<rparr>"
  by (simp add: item_line_def find_item_def CATALOG_def entry_def lit_def upper_def
      upper_cp_def Let_def calc_line_costs_def ADDITIONAL_NIGHT_MULTIPLIER_NUM_def
      ADDITIONAL_NIGHT_MULTIPLIER_DEN_def)

lemma demo_read:
  "read_item_lines 2 False [(lit ''r3t'', 3), (lit ''zzz'', 1), (lit ''RBR'', 2)] =
     Some [\<lparr>line_code = lit ''R3T'', line_name = lit ''Rods (3lb TC)'', qty = 3,
           line_daily_p = 1000, first_night_p = 3000, additional_nights_p = 1500,
           extra_delay_p = 1500, line_total_p = 6000\<rparr>,
           \<lparr>line_code = lit ''RBR'', line_name = lit ''Rods (Bait runners)'', qty = 2,
           line_daily_p = 500, first_night_p = 1000, additional_nights_p = 500,
           extra_delay_p = 500, line_total_p = 2000\<rparr>]
   \<and> read_item_lines 1 False [(lit ''dch'', 1)] =
     Some [\<lparr>line_code = lit ''DCH'', line_name = lit ''Day chairs'', qty = 1,
           line_daily_p = 1500, first_night_p = 1500, additional_nights_p = 0,
           extra_delay_p = 750, line_total_p = 2250\<rparr>]"
  by (simp add: read_item_lines_def demo_parse demo_lines)

text \<open>
  C4. For every hire record saved by the hire flow in a session, the total cost is the
  sum of the line totals of its lines and the total late surcharge is the sum of the
  late-return surcharges of its lines. The totals are functions of the line inputs:
  the model has no state besides the ledger and the counter it passes along.
\<close>

theorem hire_totals_are_line_sums:
  assumes "run_hire_flow AppState es = Some st"
  shows "\<forall>h \<in> set (hire_records st).
           total_p h = sum_list (map line_total_p (lines h))
           \<and> hire_extra_delay_p h = sum_list (map extra_delay_p (lines h))"
  by (rule flow_totals [OF assms]) (simp add: AppState_def)

theorem hire_totals_are_line_sums_witness:
  "\<exists>st. run_hire_flow AppState
           [(lit ''Olivia Gray'', 2, False, [(lit ''r3t'', 3), (lit ''zzz'', 1), (lit ''RBR'', 2)])]
         = Some st
       \<and> map total_p (hire_records st) = [8000]
       \<and> map hire_extra_delay_p (hire_records st) = [2000]
       \<and> (\<forall>h \<in> set (hire_records st).
             total_p h = sum_list (map line_total_p (lines h))
             \<and> hire_extra_delay_p h = sum_list (map extra_delay_p (lines h)))"
proof -
  let ?es = "[(lit ''Olivia Gray'', 2, False, [(lit ''r3t'', 3), (lit ''zzz'', 1), (lit ''RBR'', 2)])]"
  obtain st where st: "run_hire_flow AppState ?es = Some st"
    by (simp add: demo_read)
  have "map total_p (hire_records st) = [8000] \<and> map hire_extra_delay_p (hire_records st) = [2000]"
    using st by (auto simp: demo_read save_hire_records AppState_def)
  with st hire_totals_are_line_sums [OF st] show ?thesis by (intro exI [of _ st]) simp
qed

text \<open>
  C6. From a fresh session state, entering N hires (each with at least one accepted
  item line) saves N records, whose customer ids are 101, 102, ..., 100 + N in ledger
  order, and leaves the counter of the session state at 101 + N: one increment per
  saved record.
\<close>

theorem customer_ids_sequential:
  assumes "\<forall>e \<in> set es. \<exists>x \<in> set (snd (snd (snd e))). parse_item_line x \<noteq> None"
  shows "\<exists>st. run_hire_flow AppState es = Some st
       \<and> length (hire_records st) = length es
       \<and> map customer_id (hire_records st) = map (\<lambda>i. 101 + int i) [0..<length es]
       \<and> next_customer_id st = 101 + int (length es)"
proof -
  from flow_total [OF assms] obtain st where st: "run_hire_flow AppState es = Some st"
    by blast
  from flow_ids [OF st]
  have "map customer_id (hire_records st) = map (\<lambda>i. 101 + int i) [0..<length es]"
    and "next_customer_id st = 101 + int (length es)"
    by (simp_all add: AppState_def)
  moreover from this(1) have "length (hire_records st) = length es"
    by (metis length_map length_upt minus_nat.diff_0)
  ultimately show ?thesis using st by blast
qed

theorem customer_ids_sequential_witness:
  "\<exists>st. run_hire_flow AppState
           [(lit ''Olivia Gray'', 2, False, [(lit ''r3t'', 3), (lit ''zzz'', 1), (lit ''RBR'', 2)]),
            (lit ''Jane Smith'', 1, False, [(lit ''dch'', 1)]),
            (lit ''Tom Brown'', 1, False, [(lit ''dch'', 0), (lit ''dch'', 1)])]
         = Some st
       \<and> map customer_id (hire_records st) = [101, 102, 103]
       \<and> next_customer_id st = 104"
proof -
  let ?es = "[(lit ''Olivia Gray'', 2, False, [(lit ''r3t'', 3), (lit ''zzz'', 1), (lit ''RBR'', 2)]),
            (lit ''Jane Smith'', 1, False, [(lit ''dch'', 1)]),
            (lit ''Tom Brown'', 1, False, [(lit ''dch'', 0), (lit ''dch'', 1)])]"
  have v: "\<forall>e \<in> set ?es. \<exists>x \<in> set (snd (snd (snd e))). parse_item_line x \<noteq> None"
    by (simp add: demo_parse)
  have u: "map (\<lambda>i. 101 + int i) [0..<length ?es] = [101, 102, 103]"
    by (simp add: upt_rec)
  from customer_ids_sequential [OF v] u show ?thesis by auto
qed

text \<open>
  C10. Saving one hire appends exactly one record at the end of the ledger: the records
  stored before are the same, in the same places, the length of the ledger grows by 1
  and the next customer id grows by 1. A whole run of the hire flow keeps every record
  stored before it and adds one record and one to the counter per hire entered; the
  report only reads the state.
\<close>

theorem save_hire_appends_one:
  "hire_records (save_hire st cname n t lns)
     = hire_records st @ [last (hire_records (save_hire st cname n t lns))]
   \<and> customer_id (last (hire_records (save_hire st cname n t lns))) = next_customer_id st
   \<and> take (length (hire_records st)) (hire_records (save_hire st cname n t lns)) = hire_records st
   \<and> length (hire_records (save_hire st cname n t lns)) = length (hire_records st) + 1
   \<and> next_customer_id (save_hire st cname n t lns) = next_customer_id st + 1
   \<and> (\<forall>st'. run_hire_flow st es = Some st' \<longrightarrow>
         take (length (hire_records st)) (hire_records st') = hire_records st
         \<and> length (hire_records st') = length (hire_records st) + length es
         \<and> next_customer_id st' = next_customer_id st + int (length es))"
proof -
  have "\<And>st'. run_hire_flow st es = Some st' \<Longrightarrow>
         take (length (hire_records st)) (hire_records st') = hire_records st
         \<and> length (hire_records st') = length (hire_records st) + length es
         \<and> next_customer_id st' = next_customer_id st + int (length es)"
  proof -
    fix st' assume r: "run_hire_flow st es = Some st'"
    let ?new = "drop (length (hire_records st)) (hire_records st')"
    from flow_ids [OF r]
    have a: "hire_records st' = hire_records st @ ?new"
      and b: "map customer_id ?new = map (\<lambda>i. next_customer_id st + int i) [0..<length es]"
      and c: "next_customer_id st' = next_customer_id st + int (length es)"
      by simp_all
    from b have "length ?new = length es"
      by (metis length_map length_upt minus_nat.diff_0)
    with a have "length (hire_records st') = length (hire_records st) + length es"
      by (metis length_append)
    moreover from a have "take (length (hire_records st)) (hire_records st') = hire_records st"
      by (metis append_eq_conv_conj)
    ultimately show "take (length (hire_records st)) (hire_records st') = hire_records st
         \<and> length (hire_records st') = length (hire_records st) + length es
         \<and> next_customer_id st' = next_customer_id st + int (length es)"
      using c by blast
  qed
  then show ?thesis
    by (simp add: save_hire_records save_hire_next)
qed

theorem save_hire_appends_one_witness:
  "\<exists>st'. run_hire_flow
            (save_hire AppState (lit ''Tom Brown'') 1 False
               [\<lparr>line_code = lit ''DCH'', line_name = lit ''Day chairs'', qty = 1,
                 line_daily_p = 1500, first_night_p = 1500, additional_nights_p = 0,
                 extra_delay_p = 750, line_total_p = 2250\<rparr>])
            [(lit ''Jane Smith'', 1, False, [(lit ''dch'', 1)])]
          = Some st'
     \<and> take 1 (hire_records st')
         = hire_records
            (save_hire AppState (lit ''Tom Brown'') 1 False
               [\<lparr>line_code = lit ''DCH'', line_name = lit ''Day chairs'', qty = 1,
                 line_daily_p = 1500, first_night_p = 1500, additional_nights_p = 0,
                 extra_delay_p = 750, line_total_p = 2250\<rparr>])
     \<and> length (hire_records st') = 2 \<and> next_customer_id st' = 103"
proof -
  let ?lns = "[\<lparr>line_code = lit ''DCH'', line_name = lit ''Day chairs'', qty = 1,
                 line_daily_p = 1500, first_night_p = 1500, additional_nights_p = 0,
                 extra_delay_p = 750, line_total_p = 2250\<rparr>]"
  let ?s = "save_hire AppState (lit ''Tom Brown'') 1 False ?lns"
  let ?es = "[(lit ''Jane Smith'', 1, False, [(lit ''dch'', 1)])]"
  obtain st' where r: "run_hire_flow ?s ?es = Some st'"
    by (simp add: demo_read)
  have l: "length (hire_records ?s) = 1" "next_customer_id ?s = 102"
    by (simp_all add: save_hire_records save_hire_next AppState_def)
  note f = save_hire_appends_one [of ?s "[]" 1 True "[]" ?es, THEN conjunct2, THEN conjunct2,
      THEN conjunct2, THEN conjunct2, THEN conjunct2, rule_format, OF r]
  have "take 1 (hire_records st') = hire_records ?s"
    using f [THEN conjunct1] by (simp only: l)
  moreover have "length (hire_records st') = 2"
    using f [THEN conjunct2, THEN conjunct1] by (simp only: l) simp
  moreover have "next_customer_id st' = 103"
    using f [THEN conjunct2, THEN conjunct2] by (simp only: l) simp
  ultimately show ?thesis using r by (intro exI [of _ st'] conjI)
qed

section \<open>Properties of the earnings report\<close>

lemma wip_rows_eq:
  "wip_rows rs (out, g) = (out @ map wip_row rs, g + sum_list (map total_p rs))"
  by (induction rs arbitrary: out g) simp_all

lemma dec_nat_digit: "n < 10 \<Longrightarrow> dec_nat n = [48 + n]"
  by (simp add: dec_nat.simps)

lemma dec_nat_two: "10 \<le> n \<Longrightarrow> n < 100 \<Longrightarrow> dec_nat n = [48 + n div 10, 48 + n mod 10]"
  by (subst dec_nat.simps) (simp add: dec_nat_digit)

lemma fmt_02d_pennies:
  assumes "0 \<le> i" and "i < 100"
  shows "fmt_02d i = [48 + nat i div 10, 48 + nat i mod 10]"
proof (cases "nat i < 10")
  case True
  with assms show ?thesis by (simp add: fmt_02d_def dec_nat_digit)
next
  case False
  with assms have "10 \<le> nat i" "nat i < 100" by simp_all
  with assms show ?thesis by (simp add: fmt_02d_def dec_nat_two)
qed

lemma money_wip_form:
  "money_wip p = 163 # fmt_comma (p div 100)
                   @ [46, 48 + nat (p mod 100) div 10, 48 + nat (p mod 100) mod 10]"
  by (simp add: money_wip_def Let_def fmt_02d_pennies)

lemma money_wip_small:
  assumes "0 \<le> p" and "p < 100000"
  shows "money_wip p = money p"
proof -
  from assms have "0 \<le> p div 100" "nat (p div 100) < 1000" by simp_all
  then have "fmt_comma (p div 100) = str_int (p div 100)"
    by (simp add: fmt_comma_def str_int_def group_nat.simps)
  then show ?thesis by (simp add: money_wip_def money_def)
qed

text \<open>
  C7. The report over an empty ledger does not fail and is a single printed text, the
  message \<open>No hires recorded yet.\<close> after a leading newline (a blank line on the
  terminal): no header, no separator, no data row and no totals line. This holds for the
  report of \<^verbatim>\<open>hailmary.py\<close> and for the one of \<^verbatim>\<open>wiptask3.py\<close>.
\<close>

theorem report_empty_ledger:
  assumes "hire_records st = []" and "hire_records st3 = []"
  shows "run_earnings_report st = [10 # lit ''No hires recorded yet.'']
       \<and> run_earnings_report_task3 st3 = [10 # lit ''No hires recorded yet.'']"
  using assms by (simp add: run_earnings_report_def run_earnings_report_task3_def NO_HIRES_def)

theorem report_empty_ledger_witness:
  "hire_records (AppState :: bool app_state) = []
   \<and> hire_records (AppState :: pystr app_state) = []
   \<and> run_earnings_report AppState = [10 # lit ''No hires recorded yet.'']
   \<and> run_earnings_report_task3 AppState = [10 # lit ''No hires recorded yet.'']
   \<and> length (run_earnings_report AppState) = 1"
proof -
  have a: "hire_records (AppState :: bool app_state) = []"
    and b: "hire_records (AppState :: pystr app_state) = []"
    by (simp_all add: AppState_def)
  from report_empty_ledger [OF a b] a b show ?thesis by simp
qed

text \<open>
  C3, as amended. For every non-empty ledger: the report of \<^verbatim>\<open>hailmary.py\<close> is the
  header, the rule and one row per record in ledger order, so its last line is the row
  of the last record and there is no totals line; a row shows the total cost and the
  late surcharge as whole pounds (the pence divided by 100, rounded down), without
  currency formatting. The report of \<^verbatim>\<open>wip.py\<close> ends with the line
  \<open>TOTAL EARNINGS\<close> whose amount is \<^verbatim>\<open>money\<close> of the sum of the total costs of all
  records; its rows end with the late fee and the total cost formatted by \<^verbatim>\<open>money\<close>,
  which is the pound sign, the pounds in groups of three digits, a full stop and the
  pence as exactly two digits, and which equals the plain form below 1000 pounds.
\<close>

theorem report_nonempty_ledger:
  assumes "hire_records st \<noteq> []" and "hire_records w \<noteq> []"
  shows "run_earnings_report st = REPORT_HEADER # REPORT_RULE # map report_row (hire_records st)
   \<and> last (run_earnings_report st) = report_row (last (hire_records st))
   \<and> report_row h =
        ljust 11 (str_int (customer_id h)) @ lit '' | '' @ ljust 65 (items_summary h)
        @ lit '' | '' @ ljust 16 (str_int (nights h))
        @ lit '' | '' @ ljust 10 (str_int (total_p h div 100))
        @ lit '' | '' @ ljust 22 (if returned_on_time h then lit ''y'' else lit ''n'')
        @ lit '' | '' @ ljust 30 (str_int (hire_extra_delay_p h div 100))
   \<and> run_earnings_report_wip w =
        [10 # dashes, lit ''Earnings Report'', dashes, wip_header, dashes]
        @ map wip_row (hire_records w)
        @ [dashes,
           rjust 100 (lit ''TOTAL EARNINGS'') @ lit '' : ''
           @ rjust 15 (money_wip (sum_list (map total_p (hire_records w))))]
   \<and> (\<exists>pre. wip_row r = pre @ rjust 10 (money_wip (hire_extra_delay_p r)) @ lit '' | ''
                          @ rjust 12 (money_wip (total_p r)))
   \<and> money_wip p = 163 # fmt_comma (p div 100)
                      @ [46, 48 + nat (p mod 100) div 10, 48 + nat (p mod 100) mod 10]
   \<and> (0 \<le> p \<and> p < 100000 \<longrightarrow> money_wip p = money p)"
proof -
  have 1: "run_earnings_report st = REPORT_HEADER # REPORT_RULE # map report_row (hire_records st)"
    using assms(1) by (simp add: run_earnings_report_def)
  have 2: "last (run_earnings_report st) = report_row (last (hire_records st))"
    using assms(1) by (simp add: 1 last_map)
  have 3: "report_row h =
        ljust 11 (str_int (customer_id h)) @ lit '' | '' @ ljust 65 (items_summary h)
        @ lit '' | '' @ ljust 16 (str_int (nights h))
        @ lit '' | '' @ ljust 10 (str_int (total_p h div 100))
        @ lit '' | '' @ ljust 22 (if returned_on_time h then lit ''y'' else lit ''n'')
        @ lit '' | '' @ ljust 30 (str_int (hire_extra_delay_p h div 100))"
    by (simp add: report_row_def bar_def Let_def)
  have 4: "run_earnings_report_wip w =
        [10 # dashes, lit ''Earnings Report'', dashes, wip_header, dashes]
        @ map wip_row (hire_records w)
        @ [dashes,
           rjust 100 (lit ''TOTAL EARNINGS'') @ lit '' : ''
           @ rjust 15 (money_wip (sum_list (map total_p (hire_records w))))]"
    using assms(2) by (simp add: run_earnings_report_wip_def wip_rows_eq wip_total_line_def)
  have 5: "\<exists>pre. wip_row r = pre @ rjust 10 (money_wip (hire_extra_delay_p r)) @ lit '' | ''
                          @ rjust 12 (money_wip (total_p r))"
    unfolding wip_row_def Let_def bar_def
    by (metis append.assoc)
  have 6: "0 \<le> p \<and> p < 100000 \<longrightarrow> money_wip p = money p"
    using money_wip_small by blast
  from 1 2 3 4 5 6 money_wip_form [of p] show ?thesis by blast
qed

lemma replicate_num: "replicate (numeral k) x = x # replicate (pred_numeral k) x"
  by (simp add: numeral_eq_Suc)

lemma demo_strs:
  "str_int 101 = lit ''101''" "str_int 1 = lit ''1''" "str_int 22 = lit ''22''"
  "str_int 7 = lit ''7''"
  by (simp_all add: str_int_def dec_nat.simps lit_def)

lemma demo_money: "money 2250 = 163 # lit ''22.50''" "money_wip 2250 = 163 # lit ''22.50''"
  by (simp_all add: money_def money_wip_def fmt_comma_def group_nat.simps str_int_def
      fmt_02d_def dec_nat.simps lit_def Let_def)

lemma demo_flow:
  "run_hire_flow AppState [(lit ''Jane Smith'', 1, False, [(lit ''dch'', 1)])] = Some demo_ledger"
  by (simp add: demo_read demo_ledger_def)

lemma demo_records:
  "hire_records demo_ledger =
     [\<lparr>customer_id = 101, customer_name = lit ''Jane Smith'', nights = 1,
       returned_on_time = False,
       lines = [\<lparr>line_code = lit ''DCH'', line_name = lit ''Day chairs'', qty = 1,
                 line_daily_p = 1500, first_night_p = 1500, additional_nights_p = 0,
                 extra_delay_p = 750, line_total_p = 2250\<rparr>],
       hire_extra_delay_p = 750, total_p = 2250,
       items_summary = lit ''Day chairs '' @ 8211 # lit '' 1''\<rparr>]"
  by (simp add: demo_ledger_def save_hire_records AppState_def summary_of_def demo_strs)
     (simp add: lit_def)

lemma demo_row:
  "report_row (last (hire_records demo_ledger)) = lit ''101         | Day chairs '' @ 8211 # lit '' 1                                                    | 1                | 22         | n                      | 7                             ''"
  by (simp add: demo_records report_row_def Let_def demo_strs ljust_def bar_def)
     (simp add: lit_def replicate_num)

text \<open>
  C3 as stated fails for the report of \<^verbatim>\<open>hailmary.py\<close>. The ledger after one hire
  (one day chair for one night, returned late) holds one record with total cost 2250
  and late surcharge 750. Its report is three lines, the last of which is the row of
  the record and shows 22 and 7; the pound sign occurs nowhere in the report, so there
  is neither a totals line with the grand total nor an amount formatted as currency.
\<close>

theorem report_totals_line_counterexample:
  "run_hire_flow AppState [(lit ''Jane Smith'', 1, False, [(lit ''dch'', 1)])] = Some demo_ledger
   \<and> map total_p (hire_records demo_ledger) = [2250]
   \<and> map hire_extra_delay_p (hire_records demo_ledger) = [750]
   \<and> money 2250 = 163 # lit ''22.50''
   \<and> run_earnings_report demo_ledger = [REPORT_HEADER, REPORT_RULE, lit ''101         | Day chairs '' @ 8211 # lit '' 1                                                    | 1                | 22         | n                      | 7                             '']
   \<and> 163 \<notin> set (concat (run_earnings_report demo_ledger))"
proof -
  have r: "run_earnings_report demo_ledger = [REPORT_HEADER, REPORT_RULE, lit ''101         | Day chairs '' @ 8211 # lit '' 1                                                    | 1                | 22         | n                      | 7                             '']"
    using demo_row by (simp add: run_earnings_report_def demo_records)
  have "163 \<notin> set (concat (run_earnings_report demo_ledger))"
    by (simp add: r REPORT_HEADER_def REPORT_RULE_def lit_def)
  with r demo_flow demo_money(1) show ?thesis by (simp add: demo_records)
qed

theorem report_nonempty_ledger_witness:
  "hire_records demo_ledger \<noteq> [] \<and> hire_records demo_ledger_wip \<noteq> []
   \<and> last (run_earnings_report demo_ledger) = lit ''101         | Day chairs '' @ 8211 # lit '' 1                                                    | 1                | 22         | n                      | 7                             ''
   \<and> last (run_earnings_report_wip demo_ledger_wip)
       = rjust 100 (lit ''TOTAL EARNINGS'') @ lit '' : '' @ rjust 15 (163 # lit ''22.50'')
   \<and> length (run_earnings_report_wip demo_ledger_wip) = 8"
proof -
  have a: "hire_records demo_ledger \<noteq> []" by (simp add: demo_records)
  have b: "hire_records demo_ledger_wip \<noteq> []" by (simp add: demo_ledger_wip_def)
  note t = report_nonempty_ledger [OF a b]
  have "last (run_earnings_report demo_ledger) = lit ''101         | Day chairs '' @ 8211 # lit '' 1                                                    | 1                | 22         | n                      | 7                             ''"
    using t [THEN conjunct2, THEN conjunct1] by (simp only: demo_row)
  moreover have w: "run_earnings_report_wip demo_ledger_wip =
        [10 # dashes, lit ''Earnings Report'', dashes, wip_header, dashes]
        @ map wip_row (hire_records demo_ledger_wip)
        @ [dashes,
           rjust 100 (lit ''TOTAL EARNINGS'') @ lit '' : ''
           @ rjust 15 (money_wip (sum_list (map total_p (hire_records demo_ledger_wip))))]"
    using t [THEN conjunct2, THEN conjunct2, THEN conjunct2, THEN conjunct1] .
  moreover have "sum_list (map total_p (hire_records demo_ledger_wip)) = 2250"
    by (simp add: demo_ledger_wip_def)
  moreover have "length (hire_records demo_ledger_wip) = 1"
    by (simp add: demo_ledger_wip_def)
  ultimately show ?thesis using a b by (simp add: demo_money(2))
qed

end
